theory Spec2Isabelle
  imports Main "HOL-Library.Word"
begin

section \<open>pc\_interface.h: the interface to the PC host\<close>

type_synonym uint8_t = "8 word"

subsection \<open>Preprocessor directives\<close>

text \<open>
  The header is read by the C preprocessor in a macro environment that the build system
  has filled (\<^verbatim>\<open>-DNAME=text\<close>). The environment maps a macro name to its replacement
  text. A \<^verbatim>\<open>#define\<close> of a name that is already defined replaces the earlier text (the
  compiler warns and goes on with the new definition).
\<close>

type_synonym macros = "string \<rightharpoonup> string"

definition defined :: "macros \<Rightarrow> string \<Rightarrow> bool" where
  "defined env m = (env m \<noteq> None)"

text \<open>
  The directives of the header, in the order of the file:
  \<^verbatim>\<open>
  #ifndef PC_INTERFACE_H_
  #define PC_INTERFACE_H_
  #if (!defined(UART_BUADRATE) || defined(__DOXYGEN__))
  #define UART_BAUDRATE (115200)
  #endif
  ...
  #define MAX_PC_P_SIZE (1 + 1 + 1 + 256 + 1)
  #endif
  \<close>
  The name tested by the \<^verbatim>\<open>#if\<close> is spelt \<^verbatim>\<open>UART_BUADRATE\<close> in the source; the name
  defined on the next line is \<^verbatim>\<open>UART_BAUDRATE\<close>.
\<close>

definition pc_interface_h :: "macros \<Rightarrow> macros" where
  "pc_interface_h env =
     (if defined env ''PC_INTERFACE_H_'' then env
      else
        let env1 = env(''PC_INTERFACE_H_'' \<mapsto> '''');
            env2 = (if \<not> defined env1 ''UART_BUADRATE'' \<or> defined env1 ''__DOXYGEN__''
                    then env1(''UART_BAUDRATE'' \<mapsto> ''(115200)'')
                    else env1)
        in env2(''MAX_PC_P_SIZE'' \<mapsto> ''(1 + 1 + 1 + 256 + 1)''))"

subsection \<open>class pc\_packet\_interface\<close>

definition startByte :: uint8_t where
  "startByte = 0x7C"

datatype packetType_fromdev =
    PC_PI_PTD_START
  | PC_PI_PTD_ACK
  | PC_PI_PTD_SDR_RX_DATA
  | PC_PI_PTD_N_TRANSMIT_COMPL
  | PC_PI_PTD_N_RX_DATA
  | PC_PI_PTD_PARAM_DATA

datatype packetType_frompc =
    PC_PI_PTP_CHANGE_MODE
  | PC_PI_PTP_SET_FR
  | PC_PI_PTP_RX_SET_IN_SRC
  | PC_PI_PTP_SET_SPD
  | PC_PI_PTP_RX_START
  | PC_PI_PTP_RX_STOP
  | PC_PI_PTP_TX_START
  | PC_PI_PTP_TX_STOP
  | PC_PI_PTP_TX_DATA
  | PC_PI_PTP_TX_CARRIER
  | PC_PI_PTP_PARAM_READ
  | PC_PI_PTP_PARAM_WRITE
  | PC_PI_PTP_PARAM_STORE

datatype modes =
    PC_PI_MODE_UNINITED
  | PC_PI_MODE_NORMAL_BFSK
  | PC_PI_MODE_NORMAL_MFSK
  | PC_PI_MODE_NORMAL_MSK
  | PC_PI_MODE_SDR

text \<open>
  \<^verbatim>\<open>class pc_packet { uint8_t type; uint8_t len; uint8_t data[256]; uint8_t checksum; }\<close>.
  The array \<^verbatim>\<open>data\<close> is a list; \<open>pc_packet_ok\<close> says that it has the 256 entries of
  the declaration.
\<close>

record pc_packet =
  type :: uint8_t
  len :: uint8_t
  data :: "uint8_t list"
  checksum :: uint8_t

definition pc_packet_ok :: "pc_packet \<Rightarrow> bool" where
  "pc_packet_ok p = (length (data p) = 256)"

definition MAX_PC_P_SIZE :: nat where
  "MAX_PC_P_SIZE = 1 + 1 + 1 + 256 + 1"

text \<open>
  Modelled from the spec: the sources hold no function that writes a packet to the wire
  or reads one from it. \<open>PacketData\<close> and \<open>frame\<close> follow the wire frame of the
  specification's external interfaces, which is the format that the header states in its
  comments above \<^verbatim>\<open>pc_packet_interface\<close> and above \<^verbatim>\<open>MAX_PC_P_SIZE\<close>: StartByte,
  PacketType, PacketLength (the length of the PacketData that follows), PacketData (a
  maximum of 256 bytes), PacketChecksum. \<open>frame\<close> is the byte sequence of a packet
  object in this format: \<open>startByte\<close>, then the members of \<open>pc_packet\<close> in the order
  of their declaration, with the first \<open>len\<close> entries of \<open>data\<close> as the PacketData.
\<close>

definition PacketData :: "pc_packet \<Rightarrow> uint8_t list" where
  "PacketData p = take (unat (len p)) (data p)"

definition frame :: "pc_packet \<Rightarrow> uint8_t list" where
  "frame p = [startByte, type p, len p] @ PacketData p @ [checksum p]"

section \<open>Properties of the packet interface\<close>

lemma uint8_t_le_255: "unat (x :: uint8_t) \<le> 255"
proof -
  have "unat x < 2 ^ LENGTH(8)"
    by (rule unsigned_less)
  then show ?thesis by simp
qed

lemma length_PacketData_le: "length (PacketData p) \<le> unat (len p)"
  by (simp add: PacketData_def)

lemma length_PacketData: "pc_packet_ok p \<Longrightarrow> length (PacketData p) = unat (len p)"
proof -
  assume "pc_packet_ok p"
  then have "unat (len p) \<le> length (data p)"
    using uint8_t_le_255 [of "len p"] by (simp add: pc_packet_ok_def)
  then show ?thesis by (simp add: PacketData_def)
qed

lemma length_frame: "length (frame p) = 1 + 1 + 1 + length (PacketData p) + 1"
  by (simp add: frame_def)

text \<open>
  C7. Every packet follows the wire frame: the start byte \<open>0x7C\<close>, one byte of packet
  type, one byte of packet length, the packet data (as many bytes as the length byte
  says, between 0 and 256), one byte of checksum; no frame is longer than
  \<open>MAX_PC_P_SIZE\<close>, which is \<open>1 + 1 + 1 + 256 + 1 = 260\<close> bytes.
\<close>

theorem wire_frame_format:
  assumes "pc_packet_ok p"
  shows "startByte = 0x7C
    \<and> frame p = [startByte] @ [type p] @ [len p] @ PacketData p @ [checksum p]
    \<and> length (PacketData p) = unat (len p)
    \<and> 0 \<le> length (PacketData p) \<and> length (PacketData p) \<le> 256
    \<and> length (frame p) \<le> MAX_PC_P_SIZE
    \<and> MAX_PC_P_SIZE = 1 + 1 + 1 + 256 + 1
    \<and> MAX_PC_P_SIZE = 260"
proof -
  have s: "startByte = 0x7C"
    by (simp add: startByte_def)
  have f: "frame p = [startByte] @ [type p] @ [len p] @ PacketData p @ [checksum p]"
    by (simp add: frame_def)
  have n: "length (PacketData p) = unat (len p)"
    using assms by (rule length_PacketData)
  have d: "length (PacketData p) \<le> 256"
    using n uint8_t_le_255 [of "len p"] by simp
  have l: "length (frame p) \<le> MAX_PC_P_SIZE"
    using d by (simp add: length_frame MAX_PC_P_SIZE_def)
  have m: "MAX_PC_P_SIZE = 1 + 1 + 1 + 256 + 1"
    by (simp add: MAX_PC_P_SIZE_def)
  have m': "MAX_PC_P_SIZE = 260"
    by (simp add: MAX_PC_P_SIZE_def)
  from s f n d l m m' show ?thesis by simp
qed

theorem wire_frame_format_witness:
  "pc_packet_ok \<lparr>type = 8, len = 3, data = [1, 2, 3] @ replicate 253 0, checksum = 6\<rparr>
   \<and> frame \<lparr>type = 8, len = 3, data = [1, 2, 3] @ replicate 253 0, checksum = 6\<rparr>
       = [0x7C, 8, 3, 1, 2, 3, 6]
   \<and> length (frame \<lparr>type = 8, len = 3, data = [1, 2, 3] @ replicate 253 0, checksum = 6\<rparr>)
       \<le> MAX_PC_P_SIZE"
proof -
  have ok: "pc_packet_ok \<lparr>type = 8, len = 3, data = [1, 2, 3] @ replicate 253 0, checksum = 6\<rparr>"
    by (simp add: pc_packet_ok_def)
  show ?thesis
    using ok wire_frame_format [OF ok]
    by (simp add: PacketData_def)
qed

text \<open>
  C10. The \<open>len\<close> field is one byte: the packet data is at most 255 bytes long and never
  fills the 256 entries of \<open>data\<close>, so no packet has a frame of \<open>MAX_PC_P_SIZE\<close> = 260
  bytes. The longest frame, of a packet with \<open>len = 255\<close>, has 259 bytes.
\<close>

theorem len_never_reaches_capacity:
  "unat (len p) \<le> 255
   \<and> unat (len p) < 256
   \<and> 1 + 1 + 1 + unat (len p) + 1 < MAX_PC_P_SIZE
   \<and> length (PacketData p) \<le> 255
   \<and> length (PacketData p) < 256
   \<and> length (frame p) \<le> 259
   \<and> length (frame p) < MAX_PC_P_SIZE
   \<and> (\<exists>q. pc_packet_ok q \<and> length (PacketData q) = 255 \<and> length (frame q) = 259)"
proof -
  have b: "unat (len p) \<le> 255"
    by (rule uint8_t_le_255)
  have b': "unat (len p) < 256"
    using b by simp
  have s: "1 + 1 + 1 + unat (len p) + 1 < MAX_PC_P_SIZE"
    using b by (simp add: MAX_PC_P_SIZE_def)
  have d: "length (PacketData p) \<le> 255"
    using b length_PacketData_le [of p] by simp
  have f: "length (frame p) \<le> 259"
    using d by (simp add: length_frame)
  have m: "length (frame p) < MAX_PC_P_SIZE"
    using f by (simp add: MAX_PC_P_SIZE_def)
  let ?q = "\<lparr>type = 0, len = 255, data = replicate 256 0, checksum = 0\<rparr> :: pc_packet"
  have q: "pc_packet_ok ?q"
    by (simp add: pc_packet_ok_def)
  have qd: "length (PacketData ?q) = 255"
    using length_PacketData [OF q] by simp
  have qf: "length (frame ?q) = 259"
    using qd by (simp add: length_frame)
  from q qd qf have "\<exists>q. pc_packet_ok q \<and> length (PacketData q) = 255 \<and> length (frame q) = 259"
    by blast
  with b b' s d f m show ?thesis by simp
qed

text \<open>
  C9. The claim is that a baud rate supplied by the build system is kept. The guard of
  the header tests the misspelt name \<open>UART_BUADRATE\<close>: whenever that name is not defined
  (and the header is read for the first time), \<open>UART_BAUDRATE\<close> is defined as
  \<open>(115200)\<close>, whatever the build system had defined it to be.
\<close>

theorem uart_baudrate_overridden:
  assumes "\<not> defined env ''PC_INTERFACE_H_''"
    and "\<not> defined env ''UART_BUADRATE''"
  shows "pc_interface_h env ''UART_BAUDRATE'' = Some ''(115200)''"
  using assms by (simp add: pc_interface_h_def defined_def Let_def)

theorem uart_baudrate_overridden_witness:
  "defined [''UART_BAUDRATE'' \<mapsto> ''9600''] ''UART_BAUDRATE''
   \<and> [''UART_BAUDRATE'' \<mapsto> ''9600''] ''UART_BAUDRATE'' = Some ''9600''
   \<and> pc_interface_h [''UART_BAUDRATE'' \<mapsto> ''9600''] ''UART_BAUDRATE'' = Some ''(115200)''"
  using uart_baudrate_overridden [of "[''UART_BAUDRATE'' \<mapsto> ''9600'']"]
  by (simp add: defined_def)

end
